theory Spec2Isabelle
  imports Complex_Main
begin

section \<open>Street-network statistics of \<^verbatim>\<open>osmnx/stats.py\<close>\<close>

text \<open>
  A shallow embedding of the basic statistics of \<^verbatim>\<open>src/osmnx/stats.py\<close>.
  Python integers are \<^typ>\<open>int\<close> (counts and sizes, which cannot be negative,
  are \<^typ>\<open>nat\<close>); Python floats are abstracted to \<^typ>\<open>real\<close>, so rounding is
  not modelled; every exception the code can raise is a value of \<open>error\<close>.
\<close>

subsection \<open>Errors\<close>

text \<open>
  \<open>ValueError\<close> is what the undirected-only metrics raise on a directed graph
  (and what \<^verbatim>\<open>max\<close> raises on an empty sequence); the other three are raised
  by Python and numpy themselves.
\<close>

datatype error = ValueError | ZeroDivisionError | KeyError | IndexError

definition and_then :: "error + 'a \<Rightarrow> ('a \<Rightarrow> error + 'b) \<Rightarrow> error + 'b" where
  "and_then r f = (case r of Inl e \<Rightarrow> Inl e | Inr v \<Rightarrow> f v)"

text \<open>Python's \<^verbatim>\<open>a / b\<close> on ints and floats.\<close>

definition py_truediv :: "real \<Rightarrow> real \<Rightarrow> error + real" where
  "py_truediv a b = (if b = 0 then Inl ZeroDivisionError else Inr (a / b))"

text \<open>Python's \<^verbatim>\<open>max(vs)\<close> and \<^verbatim>\<open>range(k)\<close>.\<close>

fun py_max :: "int list \<Rightarrow> error + int" where
  "py_max [] = Inl ValueError"
| "py_max (v # vs) = Inr (foldl max v vs)"

definition py_range :: "int \<Rightarrow> int list" where
  "py_range k = map int [0..<nat k]"

subsection \<open>Graphs\<close>

text \<open>
  A networkx multigraph: \<open>directed\<close> tells a \<^verbatim>\<open>MultiDiGraph\<close> from a
  \<^verbatim>\<open>MultiGraph\<close>, \<open>crs\<close> is the graph-level attribute \<^verbatim>\<open>G.graph["crs"]\<close>,
  \<open>nodes\<close> lists the items of the node dictionary in insertion order (node
  identifiers are pairwise distinct, as the keys of a dictionary are) and
  \<open>edges\<close> lists what \<^verbatim>\<open>G.edges\<close> iterates over. A node's \<^verbatim>\<open>street_count\<close>
  attribute may be absent; the coordinates of a node and the length of an edge
  are attributes the data model guarantees.
\<close>

type_synonym node_id = int

record node_data =
  node_y :: real
  node_x :: real
  street_count :: "int option"

record edge =
  edge_u :: node_id
  edge_v :: node_id
  edge_key :: nat
  edge_length :: real

record graph =
  directed :: bool
  crs :: string
  nodes :: "(node_id \<times> node_data) list"
  edges :: "edge list"

subsection \<open>Streets per node\<close>

text \<open>
  \<^verbatim>\<open>nx.get_node_attributes(G, "street_count")\<close> is
  \<^verbatim>\<open>{n: d[name] for n, d in G.nodes.items() if name in d}\<close>: the dictionary is
  an association list in the order of the nodes.
\<close>

definition get_street_counts :: "graph \<Rightarrow> (node_id \<times> int) list" where
  "get_street_counts G =
     List.map_filter (\<lambda>(n, d). map_option (Pair n) (street_count d)) (nodes G)"

definition streets_per_node :: "graph \<Rightarrow> (node_id \<times> int) list" where
  "streets_per_node G = get_street_counts G"

text \<open>The condition under which \<open>streets_per_node\<close> logs its warning.\<close>

definition streets_per_node_warns :: "graph \<Rightarrow> bool" where
  "streets_per_node_warns G =
     (set (map fst (streets_per_node G)) \<noteq> set (map fst (nodes G)))"

definition streets_per_node_avg :: "graph \<Rightarrow> error + real" where
  "streets_per_node_avg G =
     (let spn_vals = map snd (streets_per_node G)
      in py_truediv (real_of_int (sum_list spn_vals)) (real (length (nodes G))))"

definition streets_per_node_counts :: "graph \<Rightarrow> error + (int \<times> nat) list" where
  "streets_per_node_counts G =
     (let spn_vals = map snd (streets_per_node G)
      in and_then (py_max spn_vals)
           (\<lambda>mx. Inr (map (\<lambda>i. (i, count_list spn_vals i)) (py_range (mx + 1)))))"

fun traverse :: "('a \<Rightarrow> error + 'b) \<Rightarrow> 'a list \<Rightarrow> error + 'b list" where
  "traverse f [] = Inr []"
| "traverse f (a # as) =
     and_then (f a) (\<lambda>b. and_then (traverse f as) (\<lambda>bs. Inr (b # bs)))"

definition streets_per_node_proportions :: "graph \<Rightarrow> error + (int \<times> real) list" where
  "streets_per_node_proportions G =
     (let n = length (nodes G)
      in and_then (streets_per_node_counts G)
           (traverse (\<lambda>(i, count).
              and_then (py_truediv (real count) (real n)) (\<lambda>p. Inr (i, p)))))"

subsection \<open>Intersections\<close>

text \<open>
  \<^verbatim>\<open>sum(count >= min_streets and node in node_ids for node, count in spn.items())\<close>:
  each item adds \<open>1\<close> when the Boolean is true and \<open>0\<close> otherwise.
\<close>

definition intersection_count :: "graph \<Rightarrow> int \<Rightarrow> nat" where
  "intersection_count G min_streets =
     (let spn = streets_per_node G;
          node_ids = set (map fst (nodes G))
      in sum_list (map (\<lambda>(node, count).
           if count \<ge> min_streets \<and> node \<in> node_ids then 1 else 0) spn))"

subsection \<open>Edge metrics\<close>

text \<open>
  \<^verbatim>\<open>nx.is_directed(Gu)\<close> reads the class of the graph; each undirected-only
  metric raises \<^verbatim>\<open>ValueError("`Gu` must be undirected")\<close> before it computes
  anything.
\<close>

definition street_segment_count :: "graph \<Rightarrow> error + nat" where
  "street_segment_count Gu =
     (if directed Gu then Inl ValueError else Inr (length (edges Gu)))"

definition street_length_total :: "graph \<Rightarrow> error + real" where
  "street_length_total Gu =
     (if directed Gu then Inl ValueError
      else Inr (sum_list (map edge_length (edges Gu))))"

definition edge_length_total :: "graph \<Rightarrow> real" where
  "edge_length_total G = sum_list (map edge_length (edges G))"

definition self_loop_proportion :: "graph \<Rightarrow> error + real" where
  "self_loop_proportion Gu =
     (if directed Gu then Inl ValueError
      else py_truediv
             (real (sum_list (map (\<lambda>e. if edge_u e = edge_v e then 1 else 0) (edges Gu))))
             (real (length (edges Gu))))"

subsection \<open>numpy scalars\<close>

text \<open>
  The straight-line distances are numpy \<^verbatim>\<open>float64\<close> values. Finite values are
  abstracted to reals; the three special values are kept, since the code tests
  for not-a-number and divides by a sum that may be zero. numpy's scalar
  division never raises: dividing by zero gives an infinity or not-a-number
  (with a \<^verbatim>\<open>RuntimeWarning\<close>), also when the dividend is a Python number.
\<close>

datatype npfloat = Num real | PosInf | NegInf | NaN

fun np_add :: "npfloat \<Rightarrow> npfloat \<Rightarrow> npfloat" where
  "np_add (Num a) (Num b) = Num (a + b)"
| "np_add NaN _ = NaN"
| "np_add _ NaN = NaN"
| "np_add PosInf NegInf = NaN"
| "np_add NegInf PosInf = NaN"
| "np_add PosInf _ = PosInf"
| "np_add _ PosInf = PosInf"
| "np_add NegInf _ = NegInf"
| "np_add _ NegInf = NegInf"

definition np_sum :: "npfloat list \<Rightarrow> npfloat" where
  "np_sum ds = foldl np_add (Num 0) ds"

fun np_truediv :: "real \<Rightarrow> npfloat \<Rightarrow> error + npfloat" where
  "np_truediv a (Num b) =
     Inr (if b \<noteq> 0 then Num (a / b)
          else if 0 < a then PosInf else if a < 0 then NegInf else NaN)"
| "np_truediv a PosInf = Inr (Num 0)"
| "np_truediv a NegInf = Inr (Num 0)"
| "np_truediv a NaN = Inr NaN"

subsection \<open>Collaborators\<close>

text \<open>
  The modules \<^verbatim>\<open>projection\<close>, \<^verbatim>\<open>distance\<close>, \<^verbatim>\<open>utils_graph\<close> and
  \<^verbatim>\<open>simplification\<close> are parameters of the functions that call them.
  The distance functions take the four coordinate columns and return one
  distance per row; \<open>consolidate_intersections\<close> takes the graph, the tolerance
  and the flags \<^verbatim>\<open>rebuild_graph\<close> and \<^verbatim>\<open>dead_ends\<close>, and returns the
  centroids of the merged intersections.
\<close>

record collaborators =
  is_projected :: "string \<Rightarrow> bool"
  euclidean_dist_vec :: "real list \<Rightarrow> real list \<Rightarrow> real list \<Rightarrow> real list \<Rightarrow> npfloat list"
  great_circle_vec :: "real list \<Rightarrow> real list \<Rightarrow> real list \<Rightarrow> real list \<Rightarrow> npfloat list"
  get_undirected :: "graph \<Rightarrow> graph"
  consolidate_intersections :: "graph \<Rightarrow> real \<Rightarrow> bool \<Rightarrow> bool \<Rightarrow> (real \<times> real) list"

subsection \<open>Circuity\<close>

text \<open>\<^verbatim>\<open>Gu.nodes[u]["y"], Gu.nodes[u]["x"]\<close>: a node that is not in the graph is a \<^verbatim>\<open>KeyError\<close>.\<close>

definition node_coords :: "graph \<Rightarrow> node_id \<Rightarrow> error + (real \<times> real)" where
  "node_coords G u =
     (case map_of (nodes G) u of
        None \<Rightarrow> Inl KeyError
      | Some d \<Rightarrow> Inr (node_y d, node_x d))"

definition edge_coords :: "graph \<Rightarrow> edge \<Rightarrow> error + (real \<times> real \<times> real \<times> real)" where
  "edge_coords Gu e =
     and_then (node_coords Gu (edge_u e)) (\<lambda>(y1, x1).
     and_then (node_coords Gu (edge_v e)) (\<lambda>(y2, x2).
     Inr (y1, x1, y2, x2)))"

text \<open>
  With no edge, \<^verbatim>\<open>np.array([])\<close> has one dimension and the column slice
  \<^verbatim>\<open>coords[:, 0]\<close> raises \<^verbatim>\<open>IndexError\<close>. The division is numpy's, so the
  handler of \<^verbatim>\<open>ZeroDivisionError\<close> is the first branch of the last
  \<^theory_text>\<open>case\<close>.
\<close>

definition circuity_avg :: "collaborators \<Rightarrow> graph \<Rightarrow> error + npfloat option" where
  "circuity_avg col Gu =
     (if directed Gu then Inl ValueError
      else and_then (traverse (edge_coords Gu) (edges Gu)) (\<lambda>coords.
        if coords = [] then Inl IndexError
        else
          let y1 = map (\<lambda>(a, b, c, d). a) coords;
              x1 = map (\<lambda>(a, b, c, d). b) coords;
              y2 = map (\<lambda>(a, b, c, d). c) coords;
              x2 = map (\<lambda>(a, b, c, d). d) coords;
              sl_dists = (if is_projected col (crs Gu)
                          then euclidean_dist_vec col y1 x1 y2 x2
                          else great_circle_vec col y1 x1 y2 x2);
              sl_dists_total = np_sum (filter (\<lambda>d. d \<noteq> NaN) sl_dists)
          in (case np_truediv (edge_length_total Gu) sl_dists_total of
                Inl ZeroDivisionError \<Rightarrow> Inr None
              | Inl e \<Rightarrow> Inl e
              | Inr c \<Rightarrow> Inr (Some c))))"

subsection \<open>The report of basic statistics\<close>

datatype stat_value =
    IntV int
  | FloatV real
  | NpFloatV npfloat
  | NoneV
  | CountsV "(int \<times> nat) list"
  | ProportionsV "(int \<times> real) list"

datatype warning = DeprecatedCircuityDist | DeprecatedCleanIntersects

text \<open>The deprecated parameters only emit warnings (lines 312 to 337).\<close>

definition basic_stats_warnings :: "bool option \<Rightarrow> real option \<Rightarrow> string option \<Rightarrow> warning list" where
  "basic_stats_warnings clean_intersects tolerance circuity_dist =
     (if circuity_dist \<noteq> None then [DeprecatedCircuityDist] else []) @
     (if clean_intersects = None then [] else [DeprecatedCleanIntersects]) @
     (if tolerance = None then [] else [DeprecatedCleanIntersects])"

definition circuity_value :: "npfloat option \<Rightarrow> stat_value" where
  "circuity_value c = (case c of None \<Rightarrow> NoneV | Some v \<Rightarrow> NpFloatV v)"

definition basic_stats ::
  "collaborators \<Rightarrow> graph \<Rightarrow> real option \<Rightarrow> real option \<Rightarrow> bool option \<Rightarrow> real option \<Rightarrow>
   string option \<Rightarrow> error + (string \<rightharpoonup> stat_value)" where
  "basic_stats col G area clean_int_tol clean_intersects tolerance circuity_dist =
     (let Gu = get_undirected col G;
          n = length (nodes G);
          m = length (edges G)
      in
      and_then (py_truediv (real (2 * m)) (real n)) (\<lambda>k_avg.
      let elt = edge_length_total G in
      and_then (py_truediv elt (real m)) (\<lambda>ela.
      and_then (streets_per_node_avg G) (\<lambda>spna.
      and_then (streets_per_node_counts G) (\<lambda>spnc.
      and_then (streets_per_node_proportions G) (\<lambda>spnp.
      let ic = intersection_count G 2 in
      and_then (street_length_total Gu) (\<lambda>slt.
      and_then (street_segment_count Gu) (\<lambda>ssc.
      and_then (py_truediv slt (real ssc)) (\<lambda>sla.
      and_then (circuity_avg col Gu) (\<lambda>ca.
      and_then (self_loop_proportion Gu) (\<lambda>slp.
      let stats = Map.empty
            (''n'' \<mapsto> IntV (int n),
             ''m'' \<mapsto> IntV (int m),
             ''k_avg'' \<mapsto> FloatV k_avg,
             ''edge_length_total'' \<mapsto> FloatV elt,
             ''edge_length_avg'' \<mapsto> FloatV ela,
             ''streets_per_node_avg'' \<mapsto> FloatV spna,
             ''streets_per_node_counts'' \<mapsto> CountsV spnc,
             ''streets_per_node_proportions'' \<mapsto> ProportionsV spnp,
             ''intersection_count'' \<mapsto> IntV (int ic),
             ''street_length_total'' \<mapsto> FloatV slt,
             ''street_segment_count'' \<mapsto> IntV (int ssc),
             ''street_length_avg'' \<mapsto> FloatV sla,
             ''circuity_avg'' \<mapsto> circuity_value ca,
             ''self_loop_proportion'' \<mapsto> FloatV slp);
          cic = (\<lambda>t. length (consolidate_intersections col G t False False));
          stats = (case clean_int_tol of
                     None \<Rightarrow> stats
                   | Some t \<Rightarrow>
                       if t \<noteq> 0
                       then stats(''clean_intersection_count'' \<mapsto> IntV (int (cic t)))
                       else stats)
      in
      (case area of
         None \<Rightarrow> Inr stats
       | Some a \<Rightarrow>
           let area_km = a / 1000000 in
           and_then (py_truediv (real n) area_km) (\<lambda>nd.
           and_then (py_truediv (real ic) area_km) (\<lambda>id.
           and_then (py_truediv elt area_km) (\<lambda>ed.
           and_then (py_truediv slt area_km) (\<lambda>sd.
           let stats = stats
                 (''node_density_km'' \<mapsto> FloatV nd,
                  ''intersection_density_km'' \<mapsto> FloatV id,
                  ''edge_density_km'' \<mapsto> FloatV ed,
                  ''street_density_km'' \<mapsto> FloatV sd)
           in
           (case clean_int_tol of
              None \<Rightarrow> Inr stats
            | Some t \<Rightarrow>
                if t \<noteq> 0
                then and_then (py_truediv (real (cic t)) area_km) (\<lambda>cd.
                       Inr (stats(''clean_intersection_density_km'' \<mapsto> FloatV cd)))
                else Inr stats)))))))))))))))))"

subsection \<open>The undirected view\<close>

text \<open>
  Modelled from the spec: \<^verbatim>\<open>utils_graph.get_undirected\<close> is not among the
  sources. The spec's undirected view keeps the nodes and their attributes,
  makes every directed edge an undirected one, and collapses duplicates: a
  bidirectional pair of directed edges between the same two nodes becomes a
  single undirected edge, while parallel edges with different attribute values
  are all preserved. Two edges are duplicates when they join the same two
  nodes, in either direction, and carry the same attribute value; of each
  group of duplicates the first edge is kept.
\<close>

definition is_duplicate_edge :: "edge \<Rightarrow> edge \<Rightarrow> bool" where
  "is_duplicate_edge e1 e2 =
     (((edge_u e1 = edge_u e2 \<and> edge_v e1 = edge_v e2) \<or>
       (edge_u e1 = edge_v e2 \<and> edge_v e1 = edge_u e2)) \<and>
      edge_length e1 = edge_length e2)"

fun remove_duplicate_edges :: "edge list \<Rightarrow> edge list" where
  "remove_duplicate_edges [] = []"
| "remove_duplicate_edges (e # es) =
     e # remove_duplicate_edges (filter (\<lambda>e'. \<not> is_duplicate_edge e e') es)"

definition to_undirected :: "graph \<Rightarrow> graph" where
  "to_undirected G = G\<lparr>directed := False, edges := remove_duplicate_edges (edges G)\<rparr>"

text \<open>No edge of the list is a duplicate of another one.\<close>

fun no_duplicate_edges :: "edge list \<Rightarrow> bool" where
  "no_duplicate_edges [] = True"
| "no_duplicate_edges (e # es) =
     ((\<forall>e' \<in> set es. \<not> is_duplicate_edge e e') \<and> no_duplicate_edges es)"

subsection \<open>Example collaborators and graphs\<close>

text \<open>
  Modelled from the spec: \<^verbatim>\<open>distance\<close>, \<^verbatim>\<open>projection\<close> and
  \<^verbatim>\<open>simplification\<close> are not among the sources. One instance of the
  collaborators, to run the functions on concrete graphs: the planar distance
  is Euclidean, the great-circle distance is the haversine formula on a sphere
  of radius 6371009 metres, every CRS but \<^verbatim>\<open>epsg:4326\<close> counts as projected,
  and the consolidation merges nothing (it returns the position of every node
  with more than one street).
\<close>

definition euclidean_dist :: "real \<Rightarrow> real \<Rightarrow> real \<Rightarrow> real \<Rightarrow> npfloat" where
  "euclidean_dist y1 x1 y2 x2 = Num (sqrt ((x1 - x2)\<^sup>2 + (y1 - y2)\<^sup>2))"

definition great_circle_dist :: "real \<Rightarrow> real \<Rightarrow> real \<Rightarrow> real \<Rightarrow> npfloat" where
  "great_circle_dist lat1 lng1 lat2 lng2 =
     (let rad = (\<lambda>d. d * pi / 180);
          dy = rad lat2 - rad lat1;
          dx = rad lng2 - rad lng1;
          h = (sin (dy / 2))\<^sup>2 + cos (rad lat1) * cos (rad lat2) * (sin (dx / 2))\<^sup>2
      in Num (2 * arcsin (sqrt (min 1 h)) * 6371009))"

fun vectorized ::
  "(real \<Rightarrow> real \<Rightarrow> real \<Rightarrow> real \<Rightarrow> npfloat) \<Rightarrow>
   real list \<Rightarrow> real list \<Rightarrow> real list \<Rightarrow> real list \<Rightarrow> npfloat list" where
  "vectorized f (a # as) (b # bs) (c # cs) (d # ds) = f a b c d # vectorized f as bs cs ds"
| "vectorized f _ _ _ _ = []"

definition example_collaborators :: collaborators where
  "example_collaborators =
     \<lparr>is_projected = (\<lambda>c. c \<noteq> ''epsg:4326''),
      euclidean_dist_vec = vectorized euclidean_dist,
      great_circle_vec = vectorized great_circle_dist,
      get_undirected = to_undirected,
      consolidate_intersections = (\<lambda>G tol rebuild_graph dead_ends.
        map (\<lambda>(n, d). (node_x d, node_y d))
          (filter (\<lambda>(n, d). case street_count d of None \<Rightarrow> False | Some c \<Rightarrow> 1 < c)
             (nodes G)))\<rparr>"

text \<open>A two-way street of length 1 between two nodes: two directed edges.\<close>

definition two_way_street :: graph where
  "two_way_street =
     \<lparr>directed = True, crs = ''epsg:32633'',
      nodes = [(1, \<lparr>node_y = 0, node_x = 0, street_count = Some 1\<rparr>),
               (2, \<lparr>node_y = 0, node_x = 1, street_count = Some 1\<rparr>)],
      edges = [\<lparr>edge_u = 1, edge_v = 2, edge_key = 0, edge_length = 1\<rparr>,
               \<lparr>edge_u = 2, edge_v = 1, edge_key = 0, edge_length = 1\<rparr>]\<rparr>"

text \<open>Two one-way streets in a row.\<close>

definition one_way_streets :: graph where
  "one_way_streets =
     \<lparr>directed = True, crs = ''epsg:32633'',
      nodes = [(1, \<lparr>node_y = 0, node_x = 0, street_count = Some 1\<rparr>),
               (2, \<lparr>node_y = 0, node_x = 1, street_count = Some 2\<rparr>),
               (3, \<lparr>node_y = 0, node_x = 2, street_count = Some 1\<rparr>)],
      edges = [\<lparr>edge_u = 1, edge_v = 2, edge_key = 0, edge_length = 1\<rparr>,
               \<lparr>edge_u = 2, edge_v = 3, edge_key = 0, edge_length = 1\<rparr>]\<rparr>"

text \<open>An undirected graph with one node and one self-loop of length 50.\<close>

definition self_loop_graph :: graph where
  "self_loop_graph =
     \<lparr>directed = False, crs = ''epsg:32633'',
      nodes = [(1, \<lparr>node_y = 0, node_x = 0, street_count = Some 1\<rparr>)],
      edges = [\<lparr>edge_u = 1, edge_v = 1, edge_key = 0, edge_length = 50\<rparr>]\<rparr>"

text \<open>
  A graph whose second node was added after the street counts were computed:
  it carries no \<^verbatim>\<open>street_count\<close>.
\<close>

definition stale_graph :: graph where
  "stale_graph =
     \<lparr>directed = True, crs = ''epsg:32633'',
      nodes = [(1, \<lparr>node_y = 0, node_x = 0, street_count = Some 3\<rparr>),
               (2, \<lparr>node_y = 0, node_x = 1, street_count = None\<rparr>)],
      edges = []\<rparr>"

text \<open>An undirected graph with two nodes and no edge.\<close>

definition edgeless_graph :: graph where
  "edgeless_graph =
     \<lparr>directed = False, crs = ''epsg:32633'',
      nodes = [(1, \<lparr>node_y = 0, node_x = 0, street_count = Some 0\<rparr>),
               (2, \<lparr>node_y = 0, node_x = 1, street_count = Some 0\<rparr>)],
      edges = []\<rparr>"

text \<open>
  The report of \<open>basic_stats\<close> on the two-way street, without area and
  tolerance, and the report with an area of one square kilometre.
\<close>

definition two_way_street_report :: "string \<rightharpoonup> stat_value" where
  "two_way_street_report = Map.empty
     (''n'' \<mapsto> IntV 2,
      ''m'' \<mapsto> IntV 2,
      ''k_avg'' \<mapsto> FloatV 2,
      ''edge_length_total'' \<mapsto> FloatV 2,
      ''edge_length_avg'' \<mapsto> FloatV 1,
      ''streets_per_node_avg'' \<mapsto> FloatV 1,
      ''streets_per_node_counts'' \<mapsto> CountsV [(0, 0), (1, 2)],
      ''streets_per_node_proportions'' \<mapsto> ProportionsV [(0, 0), (1, 1)],
      ''intersection_count'' \<mapsto> IntV 0,
      ''street_length_total'' \<mapsto> FloatV 1,
      ''street_segment_count'' \<mapsto> IntV 1,
      ''street_length_avg'' \<mapsto> FloatV 1,
      ''circuity_avg'' \<mapsto> NpFloatV (Num 1),
      ''self_loop_proportion'' \<mapsto> FloatV 0)"

definition two_way_street_density_report :: "string \<rightharpoonup> stat_value" where
  "two_way_street_density_report = two_way_street_report
     (''node_density_km'' \<mapsto> FloatV 2,
      ''intersection_density_km'' \<mapsto> FloatV 0,
      ''edge_density_km'' \<mapsto> FloatV 2,
      ''street_density_km'' \<mapsto> FloatV 1)"

section \<open>Properties\<close>

subsection \<open>Auxiliary facts\<close>

lemma and_then_Inr: "and_then (Inr a) f = f a"
  by (simp add: and_then_def)

lemma and_then_Inl: "and_then (Inl e) f = Inl e"
  by (simp add: and_then_def)

lemma and_then_Inr_iff: "and_then r f = Inr b \<longleftrightarrow> (\<exists>a. r = Inr a \<and> f a = Inr b)"
  by (cases r) (simp_all add: and_then_def)

lemma and_then_InrE:
  assumes "and_then r f = Inr b"
  obtains a where "r = Inr a" and "f a = Inr b"
  using assms by (auto simp: and_then_Inr_iff)

lemma py_truediv_Inr: "py_truediv a b = Inr q \<Longrightarrow> b \<noteq> 0 \<and> q = a / b"
  by (auto simp: py_truediv_def split: if_splits)

lemma foldl_max_ge: "(a::int) \<le> foldl max a vs"
  by (induction vs arbitrary: a) (auto intro: order_trans [OF max.cobounded1])

lemma foldl_max_upper: "v \<in> set vs \<Longrightarrow> (v::int) \<le> foldl max a vs"
proof (induction vs arbitrary: a)
  case Nil then show ?case by simp
next
  case (Cons w ws)
  show ?case
  proof (cases "v = w")
    case True
    have "w \<le> max a w" by simp
    also have "\<dots> \<le> foldl max (max a w) ws" by (rule foldl_max_ge)
    finally show ?thesis using True by simp
  next
    case False
    with Cons show ?thesis by simp
  qed
qed

lemma py_max_upper: "py_max vs = Inr mx \<Longrightarrow> v \<in> set vs \<Longrightarrow> v \<le> mx"
  by (cases vs) (auto simp: foldl_max_ge foldl_max_upper)

lemma distinct_py_range: "distinct (py_range k)"
  by (simp add: py_range_def distinct_map)

lemma set_py_range: "set (py_range k) = {0..<k}"
  unfolding py_range_def
  apply (auto simp: image_iff)
  subgoal for x by (rule bexI [of _ "nat x"]) auto
  done

lemma histogram_total:
  assumes "py_max vs = Inr mx" and "\<forall>v \<in> set vs. 0 \<le> v"
  shows "sum_list (map (count_list vs) (py_range (mx + 1))) = length vs"
proof -
  have "set vs \<subseteq> set (py_range (mx + 1))"
  proof
    fix v assume v: "v \<in> set vs"
    then have "0 \<le> v" using assms(2) by blast
    moreover have "v \<le> mx" using assms(1) v by (rule py_max_upper)
    ultimately show "v \<in> set (py_range (mx + 1))" by (simp add: set_py_range)
  qed
  then have "sum (count_list vs) (set (py_range (mx + 1))) = length vs"
    by (intro sum_count_set) auto
  then show ?thesis
    by (simp add: sum_list_distinct_conv_sum_set distinct_py_range)
qed

lemma sum_list_delta:
  "distinct ks \<Longrightarrow> v \<in> set ks \<Longrightarrow> (\<Sum>k\<leftarrow>ks. if v = k then f k else 0) = (f v :: real)"
  by (simp add: sum_list_distinct_conv_sum_set)

lemma weighted_count_sum:
  "distinct ks \<Longrightarrow> set vs \<subseteq> set ks \<Longrightarrow>
   (\<Sum>k\<leftarrow>ks. real_of_int k * real (count_list vs k)) = real_of_int (sum_list vs)"
proof (induction vs)
  case Nil then show ?case by simp
next
  case (Cons v vs)
  have "(\<Sum>k\<leftarrow>ks. real_of_int k * real (count_list (v # vs) k))
      = (\<Sum>k\<leftarrow>ks. real_of_int k * real (count_list vs k) + (if v = k then real_of_int k else 0))"
    by (intro arg_cong [where f = sum_list] map_cong refl) (simp add: algebra_simps)
  also have "\<dots> = (\<Sum>k\<leftarrow>ks. real_of_int k * real (count_list vs k))
                 + (\<Sum>k\<leftarrow>ks. if v = k then real_of_int k else 0)"
    by (simp add: sum_list_addf)
  also have "\<dots> = real_of_int (sum_list vs) + real_of_int v"
    using Cons by (simp add: sum_list_delta)
  finally show ?case by simp
qed

lemma sum_list_divide:
  "(\<Sum>k\<leftarrow>ks. f k / c) = (\<Sum>k\<leftarrow>ks. f k) / (c::real)"
  by (induction ks) (simp_all add: add_divide_distrib)

lemma traverse_proportions:
  "n \<noteq> 0 \<Longrightarrow>
   traverse (\<lambda>(i, count). and_then (py_truediv (real count) (real n)) (\<lambda>p. Inr (i, p))) h
     = Inr (map (\<lambda>(i, count). (i, real count / real n)) h)"
  by (induction h) (auto simp: and_then_def py_truediv_def)

lemma length_get_street_counts:
  "length (get_street_counts G) = length (filter (\<lambda>(n, d). street_count d \<noteq> None) (nodes G))"
  unfolding get_street_counts_def List.map_filter_def
  by (simp add: case_prod_unfold comp_def cong: filter_cong)


lemma streets_per_node_counts_value:
  assumes "py_max (map snd (streets_per_node G)) = Inr mx"
  shows "streets_per_node_counts G =
           Inr (map (\<lambda>i. (i, count_list (map snd (streets_per_node G)) i)) (py_range (mx + 1)))"
  using assms by (simp add: streets_per_node_counts_def and_then_def)

lemma py_max_nonempty: "vs \<noteq> [] \<Longrightarrow> \<exists>mx. py_max vs = Inr mx"
  by (cases vs) auto

lemma length_streets_per_node_le: "length (streets_per_node G) \<le> length (nodes G)"
  by (simp add: streets_per_node_def length_get_street_counts)

subsection \<open>Streets per node\<close>

text \<open>
  C5: the average divides the sum of the street counts that are present by the
  number of nodes of the graph (and raises on a graph without nodes), never
  by the number of entries of the mapping: with a non-negative sum it is at
  most the mean over the entries.
\<close>

theorem streets_per_node_avg_over_node_count:
  "(nodes G \<noteq> [] \<longrightarrow>
      streets_per_node_avg G =
        Inr (real_of_int (sum_list (map snd (streets_per_node G))) / real (length (nodes G)))) \<and>
   (nodes G = [] \<longrightarrow> streets_per_node_avg G = Inl ZeroDivisionError) \<and>
   (\<forall>avg. streets_per_node_avg G = Inr avg \<and> streets_per_node G \<noteq> [] \<and>
           0 \<le> sum_list (map snd (streets_per_node G)) \<longrightarrow>
      avg \<le> real_of_int (sum_list (map snd (streets_per_node G)))
              / real (length (streets_per_node G)))"
proof (intro conjI impI allI)
  assume "nodes G \<noteq> []"
  then show "streets_per_node_avg G =
        Inr (real_of_int (sum_list (map snd (streets_per_node G))) / real (length (nodes G)))"
    by (simp add: streets_per_node_avg_def py_truediv_def)
next
  assume "nodes G = []"
  then show "streets_per_node_avg G = Inl ZeroDivisionError"
    by (simp add: streets_per_node_avg_def py_truediv_def)
next
  fix avg
  let ?s = "real_of_int (sum_list (map snd (streets_per_node G)))"
  assume h: "streets_per_node_avg G = Inr avg \<and> streets_per_node G \<noteq> [] \<and>
           0 \<le> sum_list (map snd (streets_per_node G))"
  then have avg: "avg = ?s / real (length (nodes G))"
    by (auto simp: streets_per_node_avg_def py_truediv_def split: if_splits)
  have k: "0 < real (length (streets_per_node G))" using h by simp
  have le: "real (length (streets_per_node G)) \<le> real (length (nodes G))"
    using length_streets_per_node_le by simp
  have n: "0 < real (length (nodes G))" using k le by linarith
  have s: "0 \<le> ?s" using h by simp
  have "?s / real (length (nodes G)) \<le> ?s / real (length (streets_per_node G))"
    using le s k n by (intro divide_left_mono mult_pos_pos)
  then show "avg \<le> ?s / real (length (streets_per_node G))"
    using avg by simp
qed

theorem streets_per_node_avg_over_node_count_witness:
  "nodes stale_graph \<noteq> [] \<and>
   streets_per_node_avg stale_graph = Inr (3 / 2) \<and>
   streets_per_node stale_graph \<noteq> [] \<and>
   0 \<le> sum_list (map snd (streets_per_node stale_graph)) \<and>
   (3 / 2 :: real) \<le> real_of_int (sum_list (map snd (streets_per_node stale_graph)))
              / real (length (streets_per_node stale_graph)) \<and>
   real_of_int (sum_list (map snd (streets_per_node stale_graph)))
              / real (length (streets_per_node stale_graph)) = 3 \<and>
   nodes (stale_graph\<lparr>nodes := []\<rparr>) = [] \<and>
   streets_per_node_avg (stale_graph\<lparr>nodes := []\<rparr>) = Inl ZeroDivisionError"
proof -
  have sp: "streets_per_node stale_graph = [(1, 3)]"
    by (simp add: streets_per_node_def get_street_counts_def List.map_filter_def stale_graph_def)
  have n: "nodes stale_graph \<noteq> []" "length (nodes stale_graph) = 2"
    by (simp_all add: stale_graph_def)
  have e: "nodes (stale_graph\<lparr>nodes := []\<rparr>) = []" by simp
  show ?thesis
    using streets_per_node_avg_over_node_count [of stale_graph]
      streets_per_node_avg_over_node_count [of "stale_graph\<lparr>nodes := []\<rparr>"]
    by (simp add: sp n)
qed

text \<open>
  C3, as amended: when at least one node carries a street count and no street
  count is negative, the values of the histogram sum to the number of nodes
  that carry a street count, which is the number of nodes when all of them do,
  and the keys weighted by the proportions sum to the average.
\<close>

theorem streets_per_node_histogram:
  assumes some: "\<exists>(n, d) \<in> set (nodes G). street_count d \<noteq> None"
    and nonneg: "\<forall>(n, d) \<in> set (nodes G). \<forall>c. street_count d = Some c \<longrightarrow> 0 \<le> c"
  shows "\<exists>spnc spnp avg.
           streets_per_node_counts G = Inr spnc \<and>
           sum_list (map snd spnc) = length (filter (\<lambda>(n, d). street_count d \<noteq> None) (nodes G)) \<and>
           ((\<forall>(n, d) \<in> set (nodes G). street_count d \<noteq> None) \<longrightarrow>
              sum_list (map snd spnc) = length (nodes G)) \<and>
           streets_per_node_proportions G = Inr spnp \<and>
           streets_per_node_avg G = Inr avg \<and>
           (\<Sum>(i, p)\<leftarrow>spnp. real_of_int i * p) = avg"
proof -
  let ?vs = "map snd (streets_per_node G)"
  let ?n = "length (nodes G)"
  have len: "length ?vs = length (filter (\<lambda>(n, d). street_count d \<noteq> None) (nodes G))"
    by (simp add: streets_per_node_def length_get_street_counts)
  have "filter (\<lambda>(n, d). street_count d \<noteq> None) (nodes G) \<noteq> []"
    using some by (auto simp: filter_empty_conv)
  then have ne: "?vs \<noteq> []" using len by auto
  then have n0: "?n \<noteq> 0"
    by (auto simp: streets_per_node_def get_street_counts_def List.map_filter_def)
  have pos: "\<forall>v \<in> set ?vs. 0 \<le> v"
    using nonneg
    by (auto simp: streets_per_node_def get_street_counts_def List.map_filter_def)
  from ne obtain mx where mx: "py_max ?vs = Inr mx"
    using py_max_nonempty by blast
  let ?ks = "py_range (mx + 1)"
  let ?spnc = "map (\<lambda>i. (i, count_list ?vs i)) ?ks"
  let ?spnp = "map (\<lambda>(i, count). (i, real count / real ?n)) ?spnc"
  let ?avg = "real_of_int (sum_list ?vs) / real ?n"
  have c: "streets_per_node_counts G = Inr ?spnc"
    using mx by (rule streets_per_node_counts_value)
  have "sum_list (map snd ?spnc) = length ?vs"
    using histogram_total [OF mx pos] by (simp add: comp_def)
  then have total:
    "sum_list (map snd ?spnc) = length (filter (\<lambda>(n, d). street_count d \<noteq> None) (nodes G))"
    by (rule trans [OF _ len])
  have all: "(\<forall>(n, d) \<in> set (nodes G). street_count d \<noteq> None) \<longrightarrow>
             sum_list (map snd ?spnc) = length (nodes G)"
  proof
    assume "\<forall>(n, d) \<in> set (nodes G). street_count d \<noteq> None"
    then have "filter (\<lambda>(n, d). street_count d \<noteq> None) (nodes G) = nodes G"
      by (auto simp: filter_id_conv)
    then show "sum_list (map snd ?spnc) = length (nodes G)"
      using total by (simp only:)
  qed
  have p: "streets_per_node_proportions G = Inr ?spnp"
    using n0 by (simp add: streets_per_node_proportions_def c and_then_Inr traverse_proportions)
  have a: "streets_per_node_avg G = Inr ?avg"
    using n0 by (simp add: streets_per_node_avg_def py_truediv_def)
  have sub: "set ?vs \<subseteq> set ?ks"
  proof
    fix v assume v: "v \<in> set ?vs"
    then have "0 \<le> v" using pos by blast
    moreover have "v \<le> mx" using mx v by (rule py_max_upper)
    ultimately show "v \<in> set ?ks" by (simp add: set_py_range)
  qed
  have "(\<Sum>(i, p)\<leftarrow>?spnp. real_of_int i * p)
      = (\<Sum>k\<leftarrow>?ks. real_of_int k * real (count_list ?vs k) / real ?n)"
    by (simp add: comp_def)
  also have "\<dots> = (\<Sum>k\<leftarrow>?ks. real_of_int k * real (count_list ?vs k)) / real ?n"
    by (rule sum_list_divide)
  also have "\<dots> = ?avg"
    using weighted_count_sum [OF distinct_py_range sub] by simp
  finally have d: "(\<Sum>(i, p)\<leftarrow>?spnp. real_of_int i * p) = ?avg" .
  show ?thesis
  proof (intro exI conjI)
    show "streets_per_node_counts G = Inr ?spnc" by (fact c)
    show "sum_list (map snd ?spnc) = length (filter (\<lambda>(n, d). street_count d \<noteq> None) (nodes G))"
      by (fact total)
    show "(\<forall>(n, d) \<in> set (nodes G). street_count d \<noteq> None) \<longrightarrow>
             sum_list (map snd ?spnc) = length (nodes G)" by (fact all)
    show "streets_per_node_proportions G = Inr ?spnp" by (fact p)
    show "streets_per_node_avg G = Inr ?avg" by (fact a)
    show "(\<Sum>(i, p)\<leftarrow>?spnp. real_of_int i * p) = ?avg" by (fact d)
  qed
qed

theorem streets_per_node_histogram_witness:
  "length (nodes one_way_streets) = 3 \<and>
   (\<exists>spnc spnp avg.
       streets_per_node_counts one_way_streets = Inr spnc \<and>
       sum_list (map snd spnc) = 3 \<and>
       streets_per_node_proportions one_way_streets = Inr spnp \<and>
       streets_per_node_avg one_way_streets = Inr avg \<and>
       (\<Sum>(i, p)\<leftarrow>spnp. real_of_int i * p) = avg)"
proof -
  have a: "\<exists>(n, d) \<in> set (nodes one_way_streets). street_count d \<noteq> None"
    by (simp add: one_way_streets_def)
  have b: "\<forall>(n, d) \<in> set (nodes one_way_streets). \<forall>c. street_count d = Some c \<longrightarrow> 0 \<le> c"
    by (simp add: one_way_streets_def)
  have c: "length (filter (\<lambda>(n, d). street_count d \<noteq> None) (nodes one_way_streets)) = 3"
    by (simp add: one_way_streets_def)
  have d: "length (nodes one_way_streets) = 3"
    by (simp add: one_way_streets_def)
  from streets_per_node_histogram [OF a b] obtain spnc spnp avg where
    "streets_per_node_counts one_way_streets = Inr spnc"
    "sum_list (map snd spnc) = length (filter (\<lambda>(n, d). street_count d \<noteq> None) (nodes one_way_streets))"
    "streets_per_node_proportions one_way_streets = Inr spnp"
    "streets_per_node_avg one_way_streets = Inr avg"
    "(\<Sum>(i, p)\<leftarrow>spnp. real_of_int i * p) = avg"
    by blast
  then have "streets_per_node_counts one_way_streets = Inr spnc \<and>
       sum_list (map snd spnc) = 3 \<and>
       streets_per_node_proportions one_way_streets = Inr spnp \<and>
       streets_per_node_avg one_way_streets = Inr avg \<and>
       (\<Sum>(i, p)\<leftarrow>spnp. real_of_int i * p) = avg"
    using c by simp
  then show ?thesis
    using d by blast
qed

text \<open>
  On a graph with a node that carries no street count the histogram does not
  sum to the number of nodes.
\<close>

theorem streets_per_node_counts_stale_counterexample:
  "streets_per_node_counts stale_graph = Inr [(0, 0), (1, 0), (2, 0), (3, 1)] \<and>
   sum_list (map snd [(0::int, 0::nat), (1, 0), (2, 0), (3, 1)]) \<noteq> length (nodes stale_graph)"
  by (simp add: streets_per_node_counts_def streets_per_node_def get_street_counts_def
      List.map_filter_def stale_graph_def and_then_def py_range_def upt_rec)

subsection \<open>Intersections\<close>

lemma sum_list_indicator_mono:
  "(\<And>a. a \<in> set xs \<Longrightarrow> P a \<Longrightarrow> Q a) \<Longrightarrow>
   sum_list (map (\<lambda>a. if P a then 1 else 0) xs) \<le>
   (sum_list (map (\<lambda>a. if Q a then 1 else 0) xs) :: nat)"
  by (induction xs) auto

text \<open>
  C7: the count of intersections does not grow with the threshold: for
  \<open>j \<le> k\<close>, at most as many nodes have at least \<open>k\<close> streets as have at
  least \<open>j\<close>.
\<close>

theorem intersection_count_antimono:
  "j \<le> k \<Longrightarrow> intersection_count G k \<le> intersection_count G j"
proof -
  assume jk: "j \<le> k"
  let ?ids = "set (map fst (nodes G))"
  have "sum_list (map (\<lambda>a. if (case a of (node, count) \<Rightarrow> k \<le> count \<and> node \<in> ?ids)
                            then 1 else 0) (streets_per_node G))
      \<le> (sum_list (map (\<lambda>a. if (case a of (node, count) \<Rightarrow> j \<le> count \<and> node \<in> ?ids)
                            then 1 else 0) (streets_per_node G)) :: nat)"
    using jk by (intro sum_list_indicator_mono) auto
  then show ?thesis
    by (simp add: intersection_count_def case_prod_unfold)
qed

theorem intersection_count_antimono_witness:
  "(1::int) \<le> 2 \<and>
   intersection_count one_way_streets 2 \<le> intersection_count one_way_streets 1"
  using intersection_count_antimono [of 1 2 one_way_streets] by simp

lemma intersection_count_filter:
  "intersection_count G k =
   length (filter (\<lambda>(n, d). \<exists>c. street_count d = Some c \<and> k \<le> c) (nodes G))"
proof -
  let ?ids = "set (map fst (nodes G))"
  have "sum_list (map (\<lambda>(node, count). if k \<le> count \<and> node \<in> S then 1 else 0)
          (List.map_filter (\<lambda>(n, d). map_option (Pair n) (street_count d)) xs))
      = length (filter (\<lambda>(n, d). \<exists>c. street_count d = Some c \<and> k \<le> c) xs)"
    if "fst ` set xs \<subseteq> S" for xs :: "(node_id \<times> node_data) list" and S
    using that by (induction xs) (auto simp: List.map_filter_simps split: option.splits)
  from this [of "nodes G" ?ids] show ?thesis
    by (simp add: intersection_count_def streets_per_node_def get_street_counts_def)
qed

text \<open>
  C10: \<open>intersection_count\<close> counts exactly the nodes that are in the node
  set of the graph and carry a street count of at least \<open>min_streets\<close>; a
  node that is no longer in the graph is not counted.
\<close>

theorem intersection_count_current_nodes:
  assumes "distinct (map fst (nodes G))"
  shows "intersection_count G min_streets =
         card {n. \<exists>d c. (n, d) \<in> set (nodes G) \<and> street_count d = Some c \<and> min_streets \<le> c}"
proof -
  let ?P = "\<lambda>(n, d). \<exists>c. street_count d = Some c \<and> min_streets \<le> c"
  let ?xs = "filter ?P (nodes G)"
  have d: "distinct (map fst ?xs)"
    using assms by (rule distinct_map_filter)
  have "{n. \<exists>d c. (n, d) \<in> set (nodes G) \<and> street_count d = Some c \<and> min_streets \<le> c}
        = set (map fst ?xs)"
    by (fastforce simp: image_iff)
  then have "card {n. \<exists>d c. (n, d) \<in> set (nodes G) \<and> street_count d = Some c \<and> min_streets \<le> c}
        = length (map fst ?xs)"
    using distinct_card [OF d] by simp
  then show ?thesis
    by (simp add: intersection_count_filter)
qed

theorem intersection_count_current_nodes_witness:
  "distinct (map fst (nodes one_way_streets)) \<and>
   intersection_count one_way_streets 2 = card {2::int} \<and>
   {n. \<exists>d c. (n, d) \<in> set (nodes one_way_streets) \<and> street_count d = Some c \<and> 2 \<le> c} = {2}"
proof -
  have a: "distinct (map fst (nodes one_way_streets))" by (simp add: one_way_streets_def)
  have b: "{n. \<exists>d c. (n, d) \<in> set (nodes one_way_streets) \<and> street_count d = Some c \<and> 2 \<le> c} = {2}"
    by (auto simp: one_way_streets_def)
  show ?thesis
    using a b intersection_count_current_nodes [OF a, of 2] by simp
qed

subsection \<open>Metrics of the undirected graph\<close>

text \<open>
  C4: on a directed graph each of the four undirected-only metrics fails with
  \<open>ValueError\<close> and returns nothing; on an undirected graph
  \<open>street_segment_count\<close> is the number of edges.
\<close>

theorem undirected_only_metrics:
  "(directed G \<longrightarrow>
      street_segment_count G = Inl ValueError \<and>
      street_length_total G = Inl ValueError \<and>
      self_loop_proportion G = Inl ValueError \<and>
      circuity_avg col G = Inl ValueError) \<and>
   (\<not> directed G \<longrightarrow> street_segment_count G = Inr (length (edges G)))"
  by (simp add: street_segment_count_def street_length_total_def self_loop_proportion_def
      circuity_avg_def)

theorem undirected_only_metrics_witness:
  "directed two_way_street \<and>
   street_segment_count two_way_street = Inl ValueError \<and>
   street_length_total two_way_street = Inl ValueError \<and>
   self_loop_proportion two_way_street = Inl ValueError \<and>
   circuity_avg example_collaborators two_way_street = Inl ValueError \<and>
   \<not> directed self_loop_graph \<and>
   street_segment_count self_loop_graph = Inr 1"
proof -
  have a: "directed two_way_street" by (simp add: two_way_street_def)
  have b: "\<not> directed self_loop_graph" "length (edges self_loop_graph) = 1"
    by (simp_all add: self_loop_graph_def)
  show ?thesis
    using a b undirected_only_metrics [of two_way_street example_collaborators]
      undirected_only_metrics [of self_loop_graph example_collaborators]
    by simp
qed

lemma self_loops_le_length:
  "sum_list (map (\<lambda>e. if edge_u e = edge_v e then 1 else 0) es) \<le> (length es :: nat)"
  by (induction es) auto

text \<open>
  C8: on an undirected graph with an edge the proportion of self-loops lies
  between 0 and 1; without an edge the call fails with
  \<open>ZeroDivisionError\<close> and returns no number.
\<close>

theorem self_loop_proportion_unit_interval:
  assumes "\<not> directed Gu"
  shows "(edges Gu \<noteq> [] \<longrightarrow>
            (\<exists>p. self_loop_proportion Gu = Inr p \<and> 0 \<le> p \<and> p \<le> 1)) \<and>
         (edges Gu = [] \<longrightarrow> self_loop_proportion Gu = Inl ZeroDivisionError)"
proof (intro conjI impI)
  assume ne: "edges Gu \<noteq> []"
  let ?k = "sum_list (map (\<lambda>e. if edge_u e = edge_v e then 1 else 0) (edges Gu)) :: nat"
  let ?p = "real ?k / real (length (edges Gu))"
  have "self_loop_proportion Gu = Inr ?p"
    using assms ne by (simp add: self_loop_proportion_def py_truediv_def)
  moreover have "0 \<le> ?p" by simp
  moreover have "?p \<le> 1"
    using ne self_loops_le_length [of "edges Gu"] by (simp add: divide_le_eq_1)
  ultimately show "\<exists>p. self_loop_proportion Gu = Inr p \<and> 0 \<le> p \<and> p \<le> 1"
    by blast
next
  assume "edges Gu = []"
  then show "self_loop_proportion Gu = Inl ZeroDivisionError"
    using assms by (simp add: self_loop_proportion_def py_truediv_def)
qed

theorem self_loop_proportion_unit_interval_witness:
  "\<not> directed self_loop_graph \<and> edges self_loop_graph \<noteq> [] \<and>
   self_loop_proportion self_loop_graph = Inr 1 \<and>
   \<not> directed edgeless_graph \<and> edges edgeless_graph = [] \<and>
   self_loop_proportion edgeless_graph = Inl ZeroDivisionError"
proof -
  have a: "\<not> directed self_loop_graph" by (simp add: self_loop_graph_def)
  have b: "\<not> directed edgeless_graph" by (simp add: edgeless_graph_def)
  have c: "edges edgeless_graph = []" by (simp add: edgeless_graph_def)
  have d: "self_loop_proportion self_loop_graph = Inr 1"
    by (simp add: self_loop_proportion_def self_loop_graph_def py_truediv_def)
  have e: "edges self_loop_graph \<noteq> []" by (simp add: self_loop_graph_def)
  show ?thesis
    using a b c d e self_loop_proportion_unit_interval [OF a] self_loop_proportion_unit_interval [OF b]
    by simp
qed

subsection \<open>Circuity\<close>

text \<open>
  The division of \<open>circuity_avg\<close> is numpy's and never raises, so the
  function never returns the undefined value; without an edge it fails before
  it reaches the division.
\<close>

lemma np_truediv_returns: "\<exists>c. np_truediv a d = Inr c"
  by (cases d) simp_all

lemma circuity_avg_never_undefined: "circuity_avg col Gu \<noteq> Inr None"
proof -
  have "(case np_truediv a d of Inl ZeroDivisionError \<Rightarrow> Inr None | Inl e \<Rightarrow> Inl e
         | Inr c \<Rightarrow> Inr (Some c)) \<noteq> Inr None" for a d
    using np_truediv_returns [of a d] by auto
  then show ?thesis
    by (auto simp: circuity_avg_def and_then_def Let_def split: sum.splits)
qed

lemma circuity_avg_no_edge:
  "\<not> directed Gu \<Longrightarrow> edges Gu = [] \<Longrightarrow> circuity_avg col Gu = Inl IndexError"
  by (simp add: circuity_avg_def and_then_def)

text \<open>
  C1: on the undirected graph whose only edge is a self-loop of length 50, the
  straight-line distances sum to zero and \<open>circuity_avg\<close> returns positive
  infinity, where the specification asks for the undefined value.
\<close>

theorem circuity_avg_self_loop:
  "circuity_avg example_collaborators self_loop_graph = Inr (Some PosInf)"
  by (simp add: circuity_avg_def self_loop_graph_def example_collaborators_def edge_coords_def
      node_coords_def and_then_def euclidean_dist_def np_sum_def edge_length_total_def)

subsection \<open>Edge length and street length\<close>

lemma no_duplicate_edges_fixed:
  "no_duplicate_edges es \<Longrightarrow> remove_duplicate_edges es = es"
proof (induction es)
  case Nil then show ?case by simp
next
  case (Cons e es)
  then have "filter (\<lambda>e'. \<not> is_duplicate_edge e e') es = es"
    by (auto simp: filter_id_conv)
  with Cons show ?case by simp
qed

lemma sum_filter_le:
  "\<forall>e \<in> set es. 0 < edge_length e \<Longrightarrow>
   sum_list (map edge_length (filter P es)) \<le> sum_list (map edge_length es)"
  by (induction es) (auto intro: add_pos_nonneg order.strict_implies_order add_increasing)

lemma sum_filter_less:
  "\<forall>e \<in> set es. 0 < edge_length e \<Longrightarrow> \<exists>e \<in> set es. \<not> P e \<Longrightarrow>
   sum_list (map edge_length (filter P es)) < sum_list (map edge_length es)"
proof (induction es)
  case Nil then show ?case by simp
next
  case (Cons e es)
  have le: "sum_list (map edge_length (filter P es)) \<le> sum_list (map edge_length es)"
    using Cons.prems(1) by (intro sum_filter_le) simp
  have pos: "0 < edge_length e" using Cons.prems(1) by simp
  show ?case
  proof (cases "P e")
    case True
    then have "\<exists>e \<in> set es. \<not> P e" using Cons.prems(2) by auto
    then have "sum_list (map edge_length (filter P es)) < sum_list (map edge_length es)"
      using Cons.IH Cons.prems(1) by simp
    then show ?thesis using True by simp
  next
    case False
    then show ?thesis using le pos by simp
  qed
qed

lemma set_remove_duplicate_edges: "set (remove_duplicate_edges es) \<subseteq> set es"
  by (induction es rule: remove_duplicate_edges.induct) auto

lemma sum_remove_duplicate_edges_le:
  "\<forall>e \<in> set es. 0 < edge_length e \<Longrightarrow>
   sum_list (map edge_length (remove_duplicate_edges es)) \<le> sum_list (map edge_length es)"
proof (induction es rule: remove_duplicate_edges.induct)
  case 1 then show ?case by simp
next
  case (2 e es)
  let ?fs = "filter (\<lambda>e'. \<not> is_duplicate_edge e e') es"
  have "sum_list (map edge_length (remove_duplicate_edges ?fs)) \<le> sum_list (map edge_length ?fs)"
    using 2 by simp
  also have "\<dots> \<le> sum_list (map edge_length es)"
    using 2(2) by (intro sum_filter_le) simp
  finally show ?case by simp
qed

lemma sum_remove_duplicate_edges_less:
  "\<forall>e \<in> set es. 0 < edge_length e \<Longrightarrow> \<not> no_duplicate_edges es \<Longrightarrow>
   sum_list (map edge_length (remove_duplicate_edges es)) < sum_list (map edge_length es)"
proof (induction es rule: remove_duplicate_edges.induct)
  case 1 then show ?case by simp
next
  case (2 e es)
  let ?fs = "filter (\<lambda>e'. \<not> is_duplicate_edge e e') es"
  have pos: "\<forall>e \<in> set es. 0 < edge_length e" using 2(2) by simp
  then have posf: "\<forall>e \<in> set ?fs. 0 < edge_length e" by simp
  have le1: "sum_list (map edge_length (remove_duplicate_edges ?fs)) \<le> sum_list (map edge_length ?fs)"
    using posf by (rule sum_remove_duplicate_edges_le)
  have le2: "sum_list (map edge_length ?fs) \<le> sum_list (map edge_length es)"
    using pos by (rule sum_filter_le)
  show ?case
  proof (cases "\<exists>e' \<in> set es. is_duplicate_edge e e'")
    case True
    then have "sum_list (map edge_length ?fs) < sum_list (map edge_length es)"
      using pos by (intro sum_filter_less) auto
    then show ?thesis using le1 by simp
  next
    case False
    then have fs: "?fs = es" by (auto simp: filter_id_conv)
    have "\<not> no_duplicate_edges es" using 2(3) False by simp
    then have "sum_list (map edge_length (remove_duplicate_edges ?fs)) < sum_list (map edge_length ?fs)"
      using 2(1) posf fs by simp
    then show ?thesis using fs by simp
  qed
qed

text \<open>
  C6: when no edge of the graph is a duplicate of another one, in the same or
  in the opposite direction, the total edge length is the total street length
  of the undirected view; when some edge is a duplicate of another and the
  lengths are positive, the total street length is strictly smaller.
\<close>

theorem edge_length_total_of_undirected_view:
  "(no_duplicate_edges (edges G) \<longrightarrow>
      street_length_total (to_undirected G) = Inr (edge_length_total G)) \<and>
   (\<not> no_duplicate_edges (edges G) \<and> (\<forall>e \<in> set (edges G). 0 < edge_length e) \<longrightarrow>
      (\<exists>t. street_length_total (to_undirected G) = Inr t \<and> t < edge_length_total G))"
proof (intro conjI impI)
  assume "no_duplicate_edges (edges G)"
  then show "street_length_total (to_undirected G) = Inr (edge_length_total G)"
    by (simp add: street_length_total_def to_undirected_def edge_length_total_def
        no_duplicate_edges_fixed)
next
  assume "\<not> no_duplicate_edges (edges G) \<and> (\<forall>e \<in> set (edges G). 0 < edge_length e)"
  then have "sum_list (map edge_length (remove_duplicate_edges (edges G)))
             < sum_list (map edge_length (edges G))"
    by (intro sum_remove_duplicate_edges_less) auto
  then show "\<exists>t. street_length_total (to_undirected G) = Inr t \<and> t < edge_length_total G"
    by (simp add: street_length_total_def to_undirected_def edge_length_total_def)
qed

theorem edge_length_total_of_undirected_view_witness:
  "no_duplicate_edges (edges one_way_streets) \<and>
   street_length_total (to_undirected one_way_streets) = Inr 2 \<and>
   edge_length_total one_way_streets = 2 \<and>
   \<not> no_duplicate_edges (edges two_way_street) \<and>
   street_length_total (to_undirected two_way_street) = Inr 1 \<and>
   edge_length_total two_way_street = 2"
proof -
  have a: "no_duplicate_edges (edges one_way_streets)"
    by (simp add: one_way_streets_def is_duplicate_edge_def)
  have b: "\<not> no_duplicate_edges (edges two_way_street)"
    by (simp add: two_way_street_def is_duplicate_edge_def)
  have c: "\<forall>e \<in> set (edges two_way_street). 0 < edge_length e"
    by (simp add: two_way_street_def)
  have d: "edge_length_total one_way_streets = 2" "edge_length_total two_way_street = 2"
    by (simp_all add: edge_length_total_def one_way_streets_def two_way_street_def)
  have e: "street_length_total (to_undirected two_way_street) = Inr 1"
    by (simp add: street_length_total_def to_undirected_def two_way_street_def is_duplicate_edge_def)
  show ?thesis
    using a b c d e edge_length_total_of_undirected_view [of one_way_streets]
      edge_length_total_of_undirected_view [of two_way_street]
    by simp
qed

subsection \<open>The report of basic statistics\<close>

lemma two_way_street_parts:
  "streets_per_node_avg two_way_street = Inr 1"
  "streets_per_node_counts two_way_street = Inr [(0, 0), (1, 2)]"
  "streets_per_node_proportions two_way_street = Inr [(0, 0), (1, 1)]"
  "intersection_count two_way_street 2 = 0"
  "edge_length_total two_way_street = 2"
  by (simp_all add: streets_per_node_avg_def streets_per_node_counts_def
      streets_per_node_proportions_def intersection_count_def edge_length_total_def
      streets_per_node_def get_street_counts_def List.map_filter_def two_way_street_def
      and_then_def py_truediv_def py_range_def upt_rec)

lemma two_way_street_undirected:
  "to_undirected two_way_street =
     \<lparr>directed = False, crs = ''epsg:32633'',
      nodes = [(1, \<lparr>node_y = 0, node_x = 0, street_count = Some 1\<rparr>),
               (2, \<lparr>node_y = 0, node_x = 1, street_count = Some 1\<rparr>)],
      edges = [\<lparr>edge_u = 1, edge_v = 2, edge_key = 0, edge_length = 1\<rparr>]\<rparr>"
  by (simp add: to_undirected_def two_way_street_def is_duplicate_edge_def)

lemma two_way_street_undirected_parts:
  "street_length_total (to_undirected two_way_street) = Inr 1"
  "street_segment_count (to_undirected two_way_street) = Inr 1"
  "self_loop_proportion (to_undirected two_way_street) = Inr 0"
  "circuity_avg example_collaborators (to_undirected two_way_street) = Inr (Some (Num 1))"
  unfolding two_way_street_undirected
  by (simp_all add: street_length_total_def street_segment_count_def self_loop_proportion_def
      circuity_avg_def example_collaborators_def edge_coords_def node_coords_def
      and_then_def py_truediv_def euclidean_dist_def np_sum_def edge_length_total_def)

lemma two_way_street_sizes:
  "length (nodes two_way_street) = 2" "length (edges two_way_street) = 2"
  by (simp_all add: two_way_street_def)

lemma get_undirected_example: "get_undirected example_collaborators = to_undirected"
  by (simp add: example_collaborators_def)

lemma basic_stats_two_way_street:
  "basic_stats example_collaborators two_way_street None None None None None =
     Inr two_way_street_report"
  by (simp add: basic_stats_def get_undirected_example two_way_street_parts
      two_way_street_undirected_parts two_way_street_sizes and_then_Inr py_truediv_def
      circuity_value_def two_way_street_report_def)

text \<open>
  C9: in every report that \<open>basic_stats\<close> returns, \<open>n\<close> and \<open>m\<close> are the
  numbers of nodes and edges of the directed input graph, and \<open>k_avg\<close> is
  \<open>2 * m / n\<close>.
\<close>

theorem basic_stats_k_avg:
  assumes "basic_stats col G area clean_int_tol clean_intersects tolerance circuity_dist = Inr stats"
  shows "stats ''n'' = Some (IntV (int (length (nodes G)))) \<and>
         stats ''m'' = Some (IntV (int (length (edges G)))) \<and>
         nodes G \<noteq> [] \<and>
         stats ''k_avg'' = Some (FloatV (2 * real (length (edges G)) / real (length (nodes G))))"
  using assms unfolding basic_stats_def Let_def
  apply (elim and_then_InrE)
  apply (drule py_truediv_Inr)
  apply (cases area; cases clean_int_tol)
  apply (auto elim!: and_then_InrE split: if_splits)
  done

theorem basic_stats_k_avg_witness:
  "basic_stats example_collaborators two_way_street None None None None None =
     Inr two_way_street_report \<and>
   two_way_street_report ''n'' = Some (IntV 2) \<and>
   two_way_street_report ''m'' = Some (IntV 2) \<and>
   two_way_street_report ''k_avg'' = Some (FloatV 2)"
  using basic_stats_two_way_street basic_stats_k_avg [OF basic_stats_two_way_street]
  by (simp add: two_way_street_sizes)

text \<open>
  Which optional keys a returned report has: the four density keys exactly
  when an area is given, the clean intersection count exactly when the
  tolerance is given and not zero, its density exactly when both hold.
\<close>

lemma basic_stats_optional_keys:
  assumes "basic_stats col G area clean_int_tol clean_intersects tolerance circuity_dist = Inr stats"
  shows "(stats ''node_density_km'' \<noteq> None \<longleftrightarrow> area \<noteq> None) \<and>
         (stats ''intersection_density_km'' \<noteq> None \<longleftrightarrow> area \<noteq> None) \<and>
         (stats ''edge_density_km'' \<noteq> None \<longleftrightarrow> area \<noteq> None) \<and>
         (stats ''street_density_km'' \<noteq> None \<longleftrightarrow> area \<noteq> None) \<and>
         (stats ''clean_intersection_count'' \<noteq> None \<longleftrightarrow>
            (\<exists>t. clean_int_tol = Some t \<and> t \<noteq> 0)) \<and>
         (stats ''clean_intersection_density_km'' \<noteq> None \<longleftrightarrow>
            area \<noteq> None \<and> (\<exists>t. clean_int_tol = Some t \<and> t \<noteq> 0))"
  using assms unfolding basic_stats_def Let_def
  apply (elim and_then_InrE)
  apply (cases area; cases clean_int_tol)
  apply (auto elim!: and_then_InrE split: if_splits)
  done

text \<open>
  C2: with an area of one square kilometre and a tolerance of zero, both
  supplied, the report has the density keys but neither
  \<open>clean_intersection_count\<close> nor \<open>clean_intersection_density_km\<close>.
\<close>

theorem basic_stats_zero_tolerance:
  "basic_stats example_collaborators two_way_street (Some 1000000) (Some 0) None None None =
     Inr two_way_street_density_report \<and>
   two_way_street_density_report ''node_density_km'' = Some (FloatV 2) \<and>
   two_way_street_density_report ''clean_intersection_count'' = None \<and>
   two_way_street_density_report ''clean_intersection_density_km'' = None"
  by (simp add: basic_stats_def get_undirected_example two_way_street_parts
      two_way_street_undirected_parts two_way_street_sizes and_then_Inr py_truediv_def
      circuity_value_def two_way_street_report_def two_way_street_density_report_def)

end
